theory Spec2Isabelle
  imports Main
begin

text \<open>
  A shallow embedding of the Cassandra PV Archiver client: the administrative client
  (\<open>admin_client.py\<close>) with its builder of configuration commands and its URI-part
  encoder, and the archive-access client (\<open>archive_client.py\<close>). A function that may
  raise returns a sum, \<open>Inl\<close> the exception; the network is a parameter
  \<open>urlopen\<close> and the file system a parameter \<open>fs\<close>.
\<close>

section \<open>Python data\<close>

text \<open>
  A Python \<open>str\<close> is a sequence of Unicode code points and a \<open>bytes\<close> object a
  sequence of integers below 256; both are lists of naturals here. \<open>lit\<close> turns a
  literal of the source into its code points.
\<close>

type_synonym pystr = "nat list"
type_synonym pybytes = "nat list"

definition lit :: "string \<Rightarrow> pystr" where
  "lit s = map of_char s"

text \<open>
  What \<open>json.load\<close> returns and \<open>json.dumps\<close> accepts: \<open>None\<close>, booleans, integers,
  strings, lists, and dicts with string keys (a dict is an association list read with
  \<open>map_of\<close>). Floating-point numbers are left out.
\<close>

datatype json =
    JNull
  | JBool bool
  | JInt int
  | JStr pystr
  | JArr "json list"
  | JObj "(pystr \<times> json) list"

text \<open>
  The exceptions the two modules can raise. \<open>Exception\<close> carries the argument of
  \<open>raise Exception(...)\<close>, which is a message string or a value taken from a response.
\<close>

datatype error =
    Exception json
  | NameError string
  | TypeError
  | AttributeError
  | KeyError
  | ValueError
  | IndexError
  | UnicodeEncodeError
  | UnicodeDecodeError
  | OSError
  | URLError

definition bind_res :: "error + 'a \<Rightarrow> ('a \<Rightarrow> error + 'b) \<Rightarrow> error + 'b" where
  "bind_res r f = (case r of Inl e \<Rightarrow> Inl e | Inr x \<Rightarrow> f x)"

section \<open>Standard-library string conversions\<close>

text \<open>
  \<open>str.encode('utf_8')\<close>: one to four bytes per code point; a surrogate
  (\<open>0xD800\<close> to \<open>0xDFFF\<close>) raises \<open>UnicodeEncodeError\<close>. A number from \<open>0x110000\<close> on is
  not a code point, no Python string holds it, and the model rejects it the same way.
\<close>

definition utf8_encode_char :: "nat \<Rightarrow> error + pybytes" where
  "utf8_encode_char c =
     (if c < 0x80 then Inr [c]
      else if c < 0x800 then Inr [0xC0 + c div 64, 0x80 + c mod 64]
      else if c < 0x10000 then
        (if 0xD800 \<le> c \<and> c < 0xE000 then Inl UnicodeEncodeError
         else Inr [0xE0 + c div 4096, 0x80 + c div 64 mod 64, 0x80 + c mod 64])
      else if c < 0x110000 then
        Inr [0xF0 + c div 262144, 0x80 + c div 4096 mod 64, 0x80 + c div 64 mod 64,
             0x80 + c mod 64]
      else Inl UnicodeEncodeError)"

fun str_encode_utf8 :: "pystr \<Rightarrow> error + pybytes" where
  "str_encode_utf8 [] = Inr []"
| "str_encode_utf8 (c # cs) =
     bind_res (utf8_encode_char c) (\<lambda>bs.
     bind_res (str_encode_utf8 cs) (\<lambda>rest. Inr (bs @ rest)))"

text \<open>\<open>bytes.decode('ascii')\<close> raises on a byte from 128 on.\<close>

definition bytes_decode_ascii :: "pybytes \<Rightarrow> error + pystr" where
  "bytes_decode_ascii bs =
     (if list_all (\<lambda>b. b < 128) bs then Inr bs else Inl UnicodeDecodeError)"

text \<open>\<open>bytearray.append\<close> raises \<open>ValueError\<close> on a value outside \<open>range(256)\<close>.\<close>

definition bytearray_append :: "pybytes \<Rightarrow> nat \<Rightarrow> error + pybytes" where
  "bytearray_append ba v = (if v < 256 then Inr (ba @ [v]) else Inl ValueError)"

section \<open>The custom URI-part encoder\<close>

text \<open>The body of the \<open>for b in bin_data\<close> loop of \<open>_encode_uri_part_custom\<close>.\<close>

definition encode_uri_part_step :: "pybytes \<Rightarrow> nat \<Rightarrow> error + pybytes" where
  "encode_uri_part_step encoded_bin_data b =
     (if b = 0x2d \<or> b = 0x5f \<or> (0x30 \<le> b \<and> b \<le> 0x39)
         \<or> (0x41 \<le> b \<and> b \<le> 0x5a) \<or> (0x61 \<le> b \<and> b \<le> 0x7a)
      then bytearray_append encoded_bin_data b
      else
        (let high = b div 16;
             low = b mod 16;
             high_b = (if high < 10 then 0x30 + high else 0x37 + high);
             low_b = (if low < 10 then 0x30 + low else 0x37 + low)
         in bind_res (bytearray_append encoded_bin_data 0x7e) (\<lambda>d1.
            bind_res (bytearray_append d1 high_b) (\<lambda>d2.
            bytearray_append d2 low_b))))"

fun encode_uri_part_loop :: "pybytes \<Rightarrow> pybytes \<Rightarrow> error + pybytes" where
  "encode_uri_part_loop encoded_bin_data [] = Inr encoded_bin_data"
| "encode_uri_part_loop encoded_bin_data (b # bin_data) =
     bind_res (encode_uri_part_step encoded_bin_data b) (\<lambda>d.
     encode_uri_part_loop d bin_data)"

definition encode_uri_part_custom :: "pystr \<Rightarrow> error + pystr" where
  "encode_uri_part_custom uri_part =
     bind_res (str_encode_utf8 uri_part) (\<lambda>bin_data.
     bind_res (encode_uri_part_loop [] bin_data) (\<lambda>encoded_bin_data.
     bytes_decode_ascii encoded_bin_data))"

text \<open>
  The tilde-escape as the specification words it, to be compared with the loop above:
  the bytes that pass through, the hexadecimal digit of a nibble, and the escape of one
  byte.
\<close>

definition spec_passes_through :: "nat \<Rightarrow> bool" where
  "spec_passes_through b =
     (b \<in> of_char ` set ''-_0123456789ABCDEFGHIJKLMNOPQRSTUVWXYZabcdefghijklmnopqrstuvwxyz'')"

definition spec_hex_digit :: "nat \<Rightarrow> nat" where
  "spec_hex_digit n = of_char (''0123456789ABCDEF'' ! n)"

definition spec_tilde_escape :: "nat \<Rightarrow> pystr" where
  "spec_tilde_escape b =
     (if spec_passes_through b then [b]
      else [of_char CHR ''~'', spec_hex_digit (b div 16), spec_hex_digit (b mod 16)])"

section \<open>More of the standard library\<close>

text \<open>\<open>str\<close> of an integer: its decimal digits, with a minus sign when negative.\<close>

fun str_nat :: "nat \<Rightarrow> pystr" where
  "str_nat n = (if n < 10 then [48 + n] else str_nat (n div 10) @ [48 + n mod 10])"

declare str_nat.simps [simp del]

definition str_int :: "int \<Rightarrow> pystr" where
  "str_int i = (if i < 0 then 45 # str_nat (nat (- i)) else str_nat (nat i))"

text \<open>
  \<open>str.format\<close> with the replacement fields the two modules use: one decimal digit
  between braces, replaced by the \<open>str\<close> of the argument at that position. The
  arguments are passed already converted. Any other use of a brace raises
  \<open>ValueError\<close>, a missing argument \<open>IndexError\<close>.
\<close>

fun str_format :: "pystr \<Rightarrow> pystr list \<Rightarrow> error + pystr" where
  "str_format [] args = Inr []"
| "str_format (c # cs) args =
     (if c = 123 then
        (case cs of
           d # e # rest \<Rightarrow>
             if 48 \<le> d \<and> d \<le> 57 \<and> e = 125 then
               (if d - 48 < length args
                then bind_res (str_format rest args) (\<lambda>r. Inr (args ! (d - 48) @ r))
                else Inl IndexError)
             else Inl ValueError
         | _ \<Rightarrow> Inl ValueError)
      else if c = 125 then Inl ValueError
      else bind_res (str_format cs args) (\<lambda>r. Inr (c # r)))"

text \<open>
  \<open>urllib.parse.quote(s, safe='')\<close>: the UTF-8 bytes of \<open>s\<close>, each byte outside the
  letters, digits and \<open>_.-~\<close> replaced by a percent sign and two upper-case
  hexadecimal digits.
\<close>

definition quote_always_safe :: "nat \<Rightarrow> bool" where
  "quote_always_safe b =
     (b \<in> of_char `
        set ''ABCDEFGHIJKLMNOPQRSTUVWXYZabcdefghijklmnopqrstuvwxyz0123456789_.-~'')"

definition quote_hex :: "nat \<Rightarrow> nat" where
  "quote_hex n = of_char (''0123456789ABCDEF'' ! n)"

definition quote_byte :: "nat \<Rightarrow> pystr" where
  "quote_byte b =
     (if quote_always_safe b then [b]
      else [of_char CHR ''%'', quote_hex (b div 16), quote_hex (b mod 16)])"

definition quote :: "pystr \<Rightarrow> error + pystr" where
  "quote s = bind_res (str_encode_utf8 s) (\<lambda>bs. Inr (concat (map quote_byte bs)))"

text \<open>
  \<open>base64.b64encode\<close> (RFC 4648): three bytes become four characters of the
  alphabet, and a last group of one or two bytes is padded with \<open>=\<close>.
\<close>

definition b64_alphabet :: string where
  "b64_alphabet = ''ABCDEFGHIJKLMNOPQRSTUVWXYZabcdefghijklmnopqrstuvwxyz0123456789+/''"

definition b64_char :: "nat \<Rightarrow> nat" where
  "b64_char n = of_char (b64_alphabet ! n)"

fun b64encode :: "pybytes \<Rightarrow> pybytes" where
  "b64encode [] = []"
| "b64encode [a] = [b64_char (a div 4), b64_char (a mod 4 * 16), 61, 61]"
| "b64encode [a, b] =
     [b64_char (a div 4), b64_char (a mod 4 * 16 + b div 16), b64_char (b mod 16 * 4), 61]"
| "b64encode (a # b # c # rest) =
     [b64_char (a div 4), b64_char (a mod 4 * 16 + b div 16),
      b64_char (b mod 16 * 4 + c div 64), b64_char (c mod 64)] @ b64encode rest"

text \<open>
  Membership test and subscript with a string, and truth value, of a value read from
  JSON: \<open>key in value\<close> looks for a key in a dict, an equal element in a list and a
  substring in a string, and raises \<open>TypeError\<close> on anything else;
  \<open>value[key]\<close> raises \<open>KeyError\<close> on a dict without the key and \<open>TypeError\<close>
  on anything that is not a dict.
\<close>

fun str_contains :: "pystr \<Rightarrow> pystr \<Rightarrow> bool" where
  "str_contains [] sub = (sub = [])"
| "str_contains (c # cs) sub = (take (length sub) (c # cs) = sub \<or> str_contains cs sub)"

fun py_contains :: "json \<Rightarrow> pystr \<Rightarrow> error + bool" where
  "py_contains (JObj kvs) key = Inr (map_of kvs key \<noteq> None)"
| "py_contains (JArr xs) key = Inr (JStr key \<in> set xs)"
| "py_contains (JStr s) key = Inr (str_contains s key)"
| "py_contains _ key = Inl TypeError"

fun py_getitem :: "json \<Rightarrow> pystr \<Rightarrow> error + json" where
  "py_getitem (JObj kvs) key = (case map_of kvs key of None \<Rightarrow> Inl KeyError | Some v \<Rightarrow> Inr v)"
| "py_getitem _ key = Inl TypeError"

fun py_truth :: "json \<Rightarrow> bool" where
  "py_truth JNull = False"
| "py_truth (JBool b) = b"
| "py_truth (JInt i) = (i \<noteq> 0)"
| "py_truth (JStr s) = (s \<noteq> [])"
| "py_truth (JArr xs) = (xs \<noteq> [])"
| "py_truth (JObj kvs) = (kvs \<noteq> [])"

text \<open>A keyword argument that the caller may leave out, with its default.\<close>

definition arg_default :: "'a \<Rightarrow> 'a option \<Rightarrow> 'a" where
  "arg_default d a = (case a of None \<Rightarrow> d | Some v \<Rightarrow> v)"

section \<open>Requests and responses\<close>

text \<open>
  A request as \<open>_req\<close> builds it: the body is the value handed to \<open>json.dumps\<close>.
  A response is read through its status code, its \<open>Content-Type\<close> header and
  \<open>json.load\<close> on its body; \<open>json_body\<close> is what \<open>json.load\<close> does on the body
  after decompression and decoding, a value or an exception.
\<close>

record request =
  full_url :: pystr
  data :: "json option"
  headers :: "(pystr \<times> pystr) list"
  http_method :: pystr

record response =
  code :: int
  content_type_header :: "pystr option"
  json_body :: "error + json"

text \<open>
  \<open>urllib.request.urlopen\<close> returns a response, raises \<open>HTTPError\<close> (which carries
  the response) or raises something else; \<open>_do_req\<close> catches the \<open>HTTPError\<close> and
  returns it in place of the response.
\<close>

datatype urlopen_outcome =
    Returns response
  | RaisesHTTPError response
  | RaisesOther error

definition do_req :: "(request \<Rightarrow> urlopen_outcome) \<Rightarrow> request \<Rightarrow> error + response" where
  "do_req urlopen req =
     (case urlopen req of
        Returns resp \<Rightarrow> Inr resp
      | RaisesHTTPError err \<Rightarrow> Inr err
      | RaisesOther e \<Rightarrow> Inl e)"

abbreviation BAD_REQUEST :: int where "BAD_REQUEST \<equiv> 400"
abbreviation FORBIDDEN :: int where "FORBIDDEN \<equiv> 403"
abbreviation INTERNAL_SERVER_ERROR :: int where "INTERNAL_SERVER_ERROR \<equiv> 500"
abbreviation SERVICE_UNAVAILABLE :: int where "SERVICE_UNAVAILABLE \<equiv> 503"

definition is_success_code :: "int \<Rightarrow> bool" where
  "is_success_code status_code = (status_code \<ge> 200 \<and> status_code < 300)"

text \<open>
  \<open>_get_content_type_and_charset\<close> splits the header at the semicolons and takes the
  first part as the content type; on a response without the header, \<open>split\<close> is
  called on \<open>None\<close>. The charset only selects the decoding, which \<open>json_body\<close> covers.
\<close>

definition get_content_type :: "response \<Rightarrow> error + pystr" where
  "get_content_type resp =
     (case content_type_header resp of
        None \<Rightarrow> Inl AttributeError
      | Some header \<Rightarrow> Inr (takeWhile (\<lambda>c. c \<noteq> 59) header))"

definition get_resp_data :: "response \<Rightarrow> error + json" where
  "get_resp_data resp =
     bind_res (get_content_type resp) (\<lambda>content_type.
       if content_type \<noteq> lit ''application/json'' then
         bind_res
           (str_format (lit ''Expected content-type application/json, but got {0}.'')
              [content_type])
           (\<lambda>msg. Inl (Exception (JStr msg)))
       else json_body resp)"

text \<open>The two \<open>raise\<close> statements that every operation repeats.\<close>

definition raise_not_available :: "error + 'a" where
  "raise_not_available = Inl (Exception (JStr (lit ''Service currently not available'')))"

definition raise_request_failed :: "int \<Rightarrow> error + 'a" where
  "raise_request_failed status_code =
     bind_res (str_format (lit ''Request failed with status code {0}'') [str_int status_code])
       (\<lambda>msg. Inl (Exception (JStr msg)))"

section \<open>AdminClient\<close>

record admin_client =
  base_url :: pystr
  auth_header :: pystr

text \<open>\<open>_req\<close>; no caller passes \<open>headers\<close>, which stays the empty default.\<close>

definition req :: "admin_client \<Rightarrow> pystr \<Rightarrow> json option \<Rightarrow> pystr \<Rightarrow> bool \<Rightarrow> request" where
  "req self url data' method' authenticate =
     \<lparr> full_url = base_url self @ url,
       data = data',
       headers =
         [(lit ''Accept'', lit ''application/json''), (lit ''Accept-Encoding'', lit ''gzip'')]
         @ (if authenticate then [(lit ''Authorization'', auth_header self)] else [])
         @ (if data' \<noteq> None
            then [(lit ''Content-Type'', lit ''application/json;charset=UTF-8'')] else []),
       http_method = method' \<rparr>"

definition get_cluster_status ::
  "admin_client \<Rightarrow> (request \<Rightarrow> urlopen_outcome) \<Rightarrow> error + json" where
  "get_cluster_status self urlopen =
     bind_res (do_req urlopen (req self (lit ''/cluster-status/'') None (lit ''GET'') False))
       (\<lambda>resp.
          if code resp = SERVICE_UNAVAILABLE then raise_not_available
          else if \<not> is_success_code (code resp) then raise_request_failed (code resp)
          else get_resp_data resp)"

definition get_server_status ::
  "admin_client \<Rightarrow> (request \<Rightarrow> urlopen_outcome) \<Rightarrow> error + json" where
  "get_server_status self urlopen =
     bind_res
       (do_req urlopen (req self (lit ''/server-status/this-server/'') None (lit ''GET'') False))
       (\<lambda>resp.
          if \<not> is_success_code (code resp) then raise_request_failed (code resp)
          else get_resp_data resp)"

definition get_channel ::
  "admin_client \<Rightarrow> (request \<Rightarrow> urlopen_outcome) \<Rightarrow> pystr \<Rightarrow> pystr option \<Rightarrow> error + json" where
  "get_channel self urlopen channel_name server_id =
     bind_res (encode_uri_part_custom channel_name) (\<lambda>channel_name.
     bind_res
       (case server_id of
          None \<Rightarrow> str_format (lit ''/channels/all/by-name/{0}/'') [channel_name]
        | Some server_id \<Rightarrow>
            str_format (lit ''/channels/by-server/{0}/by-name/{1}/'') [server_id, channel_name])
       (\<lambda>url.
     bind_res (do_req urlopen (req self url None (lit ''GET'') False)) (\<lambda>resp.
       if code resp = SERVICE_UNAVAILABLE then raise_not_available
       else if \<not> is_success_code (code resp) then raise_request_failed (code resp)
       else get_resp_data resp)))"

definition list_all_channels ::
  "admin_client \<Rightarrow> (request \<Rightarrow> urlopen_outcome) \<Rightarrow> error + json" where
  "list_all_channels self urlopen =
     bind_res (do_req urlopen (req self (lit ''/channels/all/'') None (lit ''GET'') False))
       (\<lambda>resp.
          if code resp = SERVICE_UNAVAILABLE then raise_not_available
          else if \<not> is_success_code (code resp) then raise_request_failed (code resp)
          else bind_res (get_resp_data resp) (\<lambda>resp_data.
               py_getitem resp_data (lit ''channels'')))"

definition list_channels_for_server ::
  "admin_client \<Rightarrow> (request \<Rightarrow> urlopen_outcome) \<Rightarrow> pystr \<Rightarrow> error + json" where
  "list_channels_for_server self urlopen server_id =
     bind_res (str_format (lit ''/channels/by-server/{0}/'') [server_id]) (\<lambda>url.
     bind_res (do_req urlopen (req self url None (lit ''GET'') False)) (\<lambda>resp.
       if code resp = SERVICE_UNAVAILABLE then raise_not_available
       else if \<not> is_success_code (code resp) then raise_request_failed (code resp)
       else bind_res (get_resp_data resp) (\<lambda>resp_data.
            py_getitem resp_data (lit ''channels''))))"

text \<open>
  The status-code chain that \<open>import_server_configuration\<close> and
  \<open>run_archive_configuration_commands\<close> share, up to the second
  \<open>_get_resp_data\<close>. On 400 the body is read inside \<open>try\<close> with a bare
  \<open>except\<close>, so that any failure there leaves \<open>error_message\<close> at \<open>None\<close>, and
  \<open>error_message or '...'\<close> takes the fixed text whenever the message is false
  as a truth value.
\<close>

definition bad_request_error_message :: "response \<Rightarrow> json" where
  "bad_request_error_message resp =
     (case bind_res (get_resp_data resp) (\<lambda>resp_data.
           bind_res (py_contains resp_data (lit ''errorMessage'')) (\<lambda>present.
             if present then py_getitem resp_data (lit ''errorMessage'') else Inr JNull))
      of Inl e \<Rightarrow> JNull | Inr error_message \<Rightarrow> error_message)"

definition post_status_check :: "response \<Rightarrow> error + unit" where
  "post_status_check resp =
     (let status_code = code resp in
      if status_code = FORBIDDEN then Inl (Exception (JStr (lit ''Authentication error'')))
      else if status_code = BAD_REQUEST then
        (let error_message = bad_request_error_message resp in
         Inl (Exception
           (if py_truth error_message then error_message
            else JStr (lit ''Malformed request. Check the input parameters''))))
      else if status_code = INTERNAL_SERVER_ERROR then Inr ()
      else if status_code = SERVICE_UNAVAILABLE then raise_not_available
      else if \<not> is_success_code (code resp) then raise_request_failed (code resp)
      else Inr ())"

text \<open>
  The end of both operations: the body is read, and a top-level
  \<open>errorMessage\<close> other than \<open>None\<close> is raised.
\<close>

definition checked_resp_data :: "response \<Rightarrow> error + json" where
  "checked_resp_data resp =
     bind_res (get_resp_data resp) (\<lambda>resp_data.
     bind_res (py_contains resp_data (lit ''errorMessage'')) (\<lambda>present.
       if present then
         bind_res (py_getitem resp_data (lit ''errorMessage'')) (\<lambda>error_message.
           if error_message \<noteq> JNull then Inl (Exception error_message) else Inr resp_data)
       else Inr resp_data))"

text \<open>
  \<open>import_server_configuration\<close>. The configuration is a \<open>bytes\<close> object or the
  path of a file; \<open>fs\<close> gives the contents of the files that can be read, and
  \<open>open\<close> raises \<open>OSError\<close> on any other path. The first definition is the function
  up to \<open>self._req\<close>, the second one the whole of it.
\<close>

datatype configuration_file = FileContents pybytes | FilePath pystr

text \<open>
  The payload as the specification words it: the argument itself when it is
  bytes, otherwise the contents of the file at that path.
\<close>

definition spec_configuration_payload ::
  "(pystr \<Rightarrow> pybytes option) \<Rightarrow> configuration_file \<Rightarrow> pybytes option" where
  "spec_configuration_payload fs configuration_file =
     (case configuration_file of
        FileContents contents \<Rightarrow> Some contents
      | FilePath path \<Rightarrow> fs path)"

definition import_server_configuration_req ::
  "admin_client \<Rightarrow> (pystr \<Rightarrow> pybytes option) \<Rightarrow> pystr \<Rightarrow> configuration_file \<Rightarrow>
   bool option \<Rightarrow> bool option \<Rightarrow> bool option \<Rightarrow> bool option \<Rightarrow> error + request" where
  "import_server_configuration_req self fs server_id configuration_file
     add_channels remove_channels update_channels simulate =
     bind_res (str_format (lit ''/channels/by-server/{0}/import'') [server_id]) (\<lambda>url.
     bind_res
       (case configuration_file of
          FileContents contents \<Rightarrow> Inr (b64encode contents)
        | FilePath path \<Rightarrow>
            (case fs path of None \<Rightarrow> Inl OSError | Some contents \<Rightarrow> Inr (b64encode contents)))
       (\<lambda>config_data.
     bind_res (bytes_decode_ascii config_data) (\<lambda>config_text.
       let req_data = JObj
             [(lit ''addChannels'', JBool (arg_default True add_channels)),
              (lit ''configurationFile'', JStr config_text),
              (lit ''removeChannels'', JBool (arg_default False remove_channels)),
              (lit ''simulate'', JBool (arg_default False simulate)),
              (lit ''updateChannels'', JBool (arg_default True update_channels))]
       in Inr (req self url (Some req_data) (lit ''POST'') True))))"

definition import_server_configuration ::
  "admin_client \<Rightarrow> (pystr \<Rightarrow> pybytes option) \<Rightarrow> (request \<Rightarrow> urlopen_outcome) \<Rightarrow> pystr \<Rightarrow>
   configuration_file \<Rightarrow> bool option \<Rightarrow> bool option \<Rightarrow> bool option \<Rightarrow> bool option \<Rightarrow>
   error + json" where
  "import_server_configuration self fs urlopen server_id configuration_file
     add_channels remove_channels update_channels simulate =
     bind_res
       (import_server_configuration_req self fs server_id configuration_file
          add_channels remove_channels update_channels simulate)
       (\<lambda>req.
     bind_res (do_req urlopen req) (\<lambda>resp.
     bind_res (post_status_check resp) (\<lambda>_.
     checked_resp_data resp)))"

definition run_archive_configuration_commands ::
  "admin_client \<Rightarrow> (request \<Rightarrow> urlopen_outcome) \<Rightarrow> json list \<Rightarrow> error + json" where
  "run_archive_configuration_commands self urlopen commands =
     (let req_data = JObj [(lit ''commands'', JArr commands)] in
      bind_res
        (do_req urlopen
           (req self (lit ''/run-archive-configuration-commands'') (Some req_data)
              (lit ''POST'') True))
        (\<lambda>resp.
      bind_res (post_status_check resp) (\<lambda>_.
      bind_res (checked_resp_data resp) (\<lambda>resp_data.
      py_getitem resp_data (lit ''results'')))))"

section \<open>ArchiveClient\<close>

record archive_client =
  archive_base_url :: pystr

text \<open>
  \<open>ArchiveClient._req\<close>, which the three operations call with a URL only: a
  \<open>GET\<close> without body and without authentication.
\<close>

definition archive_req :: "archive_client \<Rightarrow> pystr \<Rightarrow> request" where
  "archive_req self url =
     \<lparr> full_url = archive_base_url self @ url,
       data = None,
       headers =
         [(lit ''Accept'', lit ''application/json''), (lit ''Accept-Encoding'', lit ''gzip'')],
       http_method = lit ''GET'' \<rparr>"

definition archive_handle_resp :: "response \<Rightarrow> error + json" where
  "archive_handle_resp resp =
     (let status_code = code resp in
      if status_code = SERVICE_UNAVAILABLE then raise_not_available
      else if \<not> is_success_code (code resp) then raise_request_failed (code resp)
      else get_resp_data resp)"

definition find_channels_by_pattern ::
  "archive_client \<Rightarrow> (request \<Rightarrow> urlopen_outcome) \<Rightarrow> pystr \<Rightarrow> error + json" where
  "find_channels_by_pattern self urlopen pattern =
     bind_res (quote pattern) (\<lambda>quoted.
     bind_res (str_format (lit ''/archive/1/channels-by-pattern/{0}'') [quoted]) (\<lambda>req_url.
     bind_res (do_req urlopen (archive_req self req_url)) archive_handle_resp))"

text \<open>
  Reading a name: a local variable of the function when there is one of that name,
  then the names bound at the top of \<open>archive_client.py\<close> (modules and the class,
  none of them a string, so that \<open>quote\<close> raises \<open>TypeError\<close> on them);
  \<open>NameError\<close> otherwise, no built-in being called \<open>pattern\<close>.
\<close>

definition archive_client_globals :: "string list" where
  "archive_client_globals =
     [''gzip'', ''HTTPStatus'', ''io'', ''json'', ''urllib'', ''ArchiveClient'']"

definition load_name :: "(string \<times> pystr) list \<Rightarrow> string \<Rightarrow> error + pystr" where
  "load_name local_vars name =
     (case map_of local_vars name of
        Some v \<Rightarrow> Inr v
      | None \<Rightarrow>
          if name \<in> set archive_client_globals then Inl TypeError else Inl (NameError name))"

text \<open>
  \<open>find_channels_by_regexp\<close>: its parameter is \<open>regular_expression\<close>, and the name
  it passes to \<open>quote\<close> is \<open>pattern\<close>.
\<close>

definition find_channels_by_regexp ::
  "archive_client \<Rightarrow> (request \<Rightarrow> urlopen_outcome) \<Rightarrow> pystr \<Rightarrow> error + json" where
  "find_channels_by_regexp self urlopen regular_expression =
     bind_res (load_name [(''regular_expression'', regular_expression)] ''pattern'')
       (\<lambda>pattern.
     bind_res (quote pattern) (\<lambda>quoted.
     bind_res (str_format (lit ''/archive/1/channels-by-regexp/{0}'') [quoted]) (\<lambda>req_url.
     bind_res (do_req urlopen (archive_req self req_url)) archive_handle_resp)))"

text \<open>
  \<open>get_samples\<close>, with integer times and count: first the function up to
  \<open>self._req\<close>, which builds \<open>req_url\<close>, then the whole of it.
\<close>

definition get_samples_req_url :: "pystr \<Rightarrow> int \<Rightarrow> int \<Rightarrow> int option \<Rightarrow> error + pystr" where
  "get_samples_req_url channel_name start_time end_time count =
     bind_res (quote channel_name) (\<lambda>quoted.
     bind_res
       (str_format (lit ''/archive/1/samples/{0}?start={1}&end={2}'')
          [quoted, str_int start_time, str_int end_time])
       (\<lambda>req_url.
          if arg_default 0 count > 0 then
            bind_res (str_format (lit ''&count={0}'') [str_int (arg_default 0 count)])
              (\<lambda>suffix. Inr (req_url @ suffix))
          else Inr req_url))"

definition get_samples ::
  "archive_client \<Rightarrow> (request \<Rightarrow> urlopen_outcome) \<Rightarrow> pystr \<Rightarrow> int \<Rightarrow> int \<Rightarrow> int option \<Rightarrow>
   error + json" where
  "get_samples self urlopen channel_name start_time end_time count =
     bind_res (get_samples_req_url channel_name start_time end_time count) (\<lambda>req_url.
     bind_res (do_req urlopen (archive_req self req_url)) archive_handle_resp)"

section \<open>ArchiveConfigurationCommands\<close>

text \<open>
  The arguments of the builder methods: \<open>None\<close>, a boolean, an integer or a string,
  and lists and dicts of those. \<open>str\<close> is applied to the first four only.
\<close>

datatype atom = ANone | ABool bool | AInt int | AStr pystr

datatype pyarg = Atom atom | ListOf "atom list" | DictOf "(atom \<times> atom) list"

fun py_str :: "atom \<Rightarrow> pystr" where
  "py_str ANone = lit ''None''"
| "py_str (ABool b) = (if b then lit ''True'' else lit ''False'')"
| "py_str (AInt i) = str_int i"
| "py_str (AStr s) = s"

fun py_bool :: "pyarg \<Rightarrow> bool" where
  "py_bool (Atom ANone) = False"
| "py_bool (Atom (ABool b)) = b"
| "py_bool (Atom (AInt i)) = (i \<noteq> 0)"
| "py_bool (Atom (AStr s)) = (s \<noteq> [])"
| "py_bool (ListOf xs) = (xs \<noteq> [])"
| "py_bool (DictOf kvs) = (kvs \<noteq> [])"

text \<open>
  Iteration: a list gives its elements, a dict its keys, a string its characters;
  \<open>None\<close>, a boolean and an integer raise \<open>TypeError\<close>.
\<close>

fun py_iter :: "pyarg \<Rightarrow> error + atom list" where
  "py_iter (ListOf xs) = Inr xs"
| "py_iter (DictOf kvs) = Inr (map fst kvs)"
| "py_iter (Atom (AStr s)) = Inr (map (\<lambda>c. AStr [c]) s)"
| "py_iter (Atom _) = Inl TypeError"

text \<open>
  Reading the attribute \<open>items\<close> without calling it: on a dict the result is the
  bound method, any other argument has no such attribute. A bound method is not
  iterable, so \<open>for ... in obj.items\<close> raises \<open>TypeError\<close>.
\<close>

datatype attribute = BoundMethod pyarg string

fun getattr_items :: "pyarg \<Rightarrow> error + attribute" where
  "getattr_items (DictOf kvs) = Inr (BoundMethod (DictOf kvs) ''items'')"
| "getattr_items _ = Inl AttributeError"

fun iter_attribute :: "attribute \<Rightarrow> error + (atom \<times> atom) list" where
  "iter_attribute (BoundMethod obj name) = Inl TypeError"

text \<open>
  The dict comprehension \<open>{str(key): str(value) for key, value in ...}\<close> over a
  sequence of pairs: a later pair replaces an earlier one with the same key string.
\<close>

fun dict_setitem :: "(pystr \<times> json) list \<Rightarrow> pystr \<Rightarrow> json \<Rightarrow> (pystr \<times> json) list" where
  "dict_setitem [] k v = [(k, v)]"
| "dict_setitem ((k', v') # kvs) k v =
     (if k' = k then (k, v) # kvs else (k', v') # dict_setitem kvs k v)"

definition str_dict_of_pairs :: "(atom \<times> atom) list \<Rightarrow> json" where
  "str_dict_of_pairs pairs =
     JObj (foldl (\<lambda>d (key, value). dict_setitem d (py_str key) (JStr (py_str value))) [] pairs)"

definition make_str :: "atom \<Rightarrow> json" where
  "make_str obj = (if obj \<noteq> ANone then JStr (py_str obj) else JNull)"

definition make_str_dict :: "pyarg \<Rightarrow> error + json" where
  "make_str_dict dict_like_obj =
     (if dict_like_obj \<noteq> Atom ANone then
        bind_res (getattr_items dict_like_obj) (\<lambda>items.
        bind_res (iter_attribute items) (\<lambda>pairs.
        Inr (str_dict_of_pairs pairs)))
      else Inr JNull)"

definition make_str_list :: "pyarg \<Rightarrow> error + json" where
  "make_str_list list_like_obj =
     (if list_like_obj \<noteq> Atom ANone then
        bind_res (py_iter list_like_obj) (\<lambda>elems.
        Inr (JArr (map (\<lambda>elem. JStr (py_str elem)) elems)))
      else Inr JNull)"

text \<open>
  The seven methods. \<open>self\<close> is the list before the call and the result the list
  after it, or the exception raised. An optional parameter is \<open>None\<close> when the
  caller leaves it out, and the values of the dict literal are computed in the order
  of the source.
\<close>

definition add_channel ::
  "json list \<Rightarrow> atom \<Rightarrow> atom \<Rightarrow> atom \<Rightarrow> pyarg option \<Rightarrow> pyarg option \<Rightarrow> pyarg option \<Rightarrow>
   pyarg option \<Rightarrow> error + json list" where
  "add_channel self channel_name control_system_type server_id decimation_levels
     decimation_level_to_retention_period enabled options =
     bind_res (make_str_list (arg_default (Atom ANone) decimation_levels)) (\<lambda>levels.
     bind_res (make_str_dict (arg_default (Atom ANone) decimation_level_to_retention_period))
       (\<lambda>periods.
     bind_res (make_str_dict (arg_default (Atom ANone) options)) (\<lambda>opts.
       let command = JObj
             [(lit ''channelName'', make_str channel_name),
              (lit ''commandType'', JStr (lit ''add_channel'')),
              (lit ''controlSystemType'', make_str control_system_type),
              (lit ''decimationLevels'', levels),
              (lit ''decimationLevelToRetentionPeriod'', periods),
              (lit ''enabled'', JBool (py_bool (arg_default (Atom (ABool True)) enabled))),
              (lit ''options'', opts),
              (lit ''serverId'', make_str server_id)]
       in Inr (self @ [command]))))"

definition add_or_update_channel ::
  "json list \<Rightarrow> atom \<Rightarrow> atom \<Rightarrow> atom \<Rightarrow> pyarg option \<Rightarrow> pyarg option \<Rightarrow> pyarg option \<Rightarrow>
   pyarg option \<Rightarrow> error + json list" where
  "add_or_update_channel self channel_name control_system_type server_id decimation_levels
     decimation_level_to_retention_period enabled options =
     bind_res (make_str_list (arg_default (Atom ANone) decimation_levels)) (\<lambda>levels.
     bind_res (make_str_dict (arg_default (Atom ANone) decimation_level_to_retention_period))
       (\<lambda>periods.
     bind_res (make_str_dict (arg_default (Atom ANone) options)) (\<lambda>opts.
       let command = JObj
             [(lit ''channelName'', make_str channel_name),
              (lit ''commandType'', JStr (lit ''add_or_update_channel'')),
              (lit ''controlSystemType'', make_str control_system_type),
              (lit ''decimationLevels'', levels),
              (lit ''decimationLevelToRetentionPeriod'', periods),
              (lit ''enabled'', JBool (py_bool (arg_default (Atom (ABool True)) enabled))),
              (lit ''options'', opts),
              (lit ''serverId'', make_str server_id)]
       in Inr (self @ [command]))))"





definition update_channel ::
  "json list \<Rightarrow> atom \<Rightarrow> pyarg option \<Rightarrow> pyarg option \<Rightarrow> pyarg option \<Rightarrow> pyarg option \<Rightarrow>
   pyarg option \<Rightarrow> atom option \<Rightarrow> atom option \<Rightarrow> pyarg option \<Rightarrow> pyarg option \<Rightarrow>
   pyarg option \<Rightarrow> error + json list" where
  "update_channel self channel_name add_decimation_levels add_options decimation_levels
     decimation_level_to_retention_period enabled expected_control_system_type
     expected_server_id options remove_decimation_levels remove_options =
     bind_res (make_str_list (arg_default (Atom ANone) add_decimation_levels)) (\<lambda>add_levels.
     bind_res (make_str_dict (arg_default (Atom ANone) add_options)) (\<lambda>add_opts.
     bind_res (make_str_list (arg_default (Atom ANone) decimation_levels)) (\<lambda>levels.
     bind_res (make_str_dict (arg_default (Atom ANone) decimation_level_to_retention_period))
       (\<lambda>periods.
     bind_res (make_str_dict (arg_default (Atom ANone) options)) (\<lambda>opts.
     bind_res (make_str_list (arg_default (Atom ANone) remove_decimation_levels))
       (\<lambda>remove_levels.
     bind_res (make_str_list (arg_default (Atom ANone) remove_options)) (\<lambda>remove_opts.
       let command = JObj
             [(lit ''addDecimationLevels'', add_levels),
              (lit ''addOptions'', add_opts),
              (lit ''channelName'', make_str channel_name),
              (lit ''commandType'', JStr (lit ''update_channel'')),
              (lit ''decimationLevels'', levels),
              (lit ''decimationLevelToRetentionPeriod'', periods),
              (lit ''enabled'',
                 (if arg_default (Atom ANone) enabled \<noteq> Atom ANone
                  then JBool (py_bool (arg_default (Atom ANone) enabled)) else JNull)),
              (lit ''expectedControlSystemType'',
                 make_str (arg_default ANone expected_control_system_type)),
              (lit ''expectedServerId'', make_str (arg_default ANone expected_server_id)),
              (lit ''options'', opts),
              (lit ''removeDecimationLevels'', remove_levels),
              (lit ''removeOptions'', remove_opts)]
       in Inr (self @ [command]))))))))"

text \<open>
  For the statements about a batch: the fields of its last command, one of them by
  name, and the field names in the order of the dict.
\<close>

definition last_command_fields :: "json list \<Rightarrow> (pystr \<times> json) list" where
  "last_command_fields cmds =
     (if cmds = [] then [] else (case last cmds of JObj kvs \<Rightarrow> kvs | _ \<Rightarrow> []))"

definition last_command_field :: "json list \<Rightarrow> string \<Rightarrow> json option" where
  "last_command_field cmds name = map_of (last_command_fields cmds) (lit name)"


section \<open>Example values\<close>

text \<open>
  A client as \<open>AdminClient('localhost')\<close> builds it, and a response with a given
  status code whose body is JSON for a given value.
\<close>

definition example_admin :: admin_client where
  "example_admin =
     \<lparr> base_url = lit ''http://localhost:4812/admin/api/1.0'',
       auth_header = lit ''Basic YWRtaW46'' \<rparr>"

definition json_response :: "int \<Rightarrow> json \<Rightarrow> response" where
  "json_response status_code body =
     \<lparr> code = status_code,
       content_type_header = Some (lit ''application/json;charset=UTF-8''),
       json_body = Inr body \<rparr>"

section \<open>Properties of the custom URI-part encoder\<close>

lemma bind_res_simps [simp]:
  "bind_res (Inl e) f = Inl e"
  "bind_res (Inr x) f = f x"
  by (simp_all add: bind_res_def)

lemma utf8_encode_char_bytes:
  "utf8_encode_char c = Inr bs \<Longrightarrow> list_all (\<lambda>b. b < 256) bs"
  by (auto simp: utf8_encode_char_def split: if_splits)

lemma str_encode_utf8_bytes:
  "str_encode_utf8 s = Inr bs \<Longrightarrow> list_all (\<lambda>b. b < 256) bs"
proof (induction s arbitrary: bs)
  case Nil
  then show ?case by simp
next
  case (Cons c cs)
  then show ?case
    by (auto simp: bind_res_def split: sum.splits dest: utf8_encode_char_bytes)
qed

lemma spec_passes_through_iff:
  "spec_passes_through b \<longleftrightarrow>
     (b = 0x2d \<or> b = 0x5f \<or> (0x30 \<le> b \<and> b \<le> 0x39)
         \<or> (0x41 \<le> b \<and> b \<le> 0x5a) \<or> (0x61 \<le> b \<and> b \<le> 0x7a))"
  unfolding spec_passes_through_def by (simp add: image_iff) arith

lemma hex_digit_code:
  "n < 16 \<Longrightarrow> (if n < 10 then 0x30 + n else 0x37 + n) = spec_hex_digit n"
  unfolding spec_hex_digit_def
  by (simp add: nth_Cons')

lemma encode_uri_part_step_spec:
  "b < 256 \<Longrightarrow> encode_uri_part_step acc b = Inr (acc @ spec_tilde_escape b)"
proof -
  assume b: "b < 256"
  then have h: "b div 16 < 16" and l: "b mod 16 < 16" by simp_all
  have hb: "(if b div 16 < 10 then 0x30 + b div 16 else 0x37 + b div 16) < 256"
    using h by auto
  have lb: "(if b mod 16 < 10 then 0x30 + b mod 16 else 0x37 + b mod 16) < 256"
    using l by auto
  show ?thesis
  proof (cases "spec_passes_through b")
    case True
    then show ?thesis
      using b by (simp add: encode_uri_part_step_def spec_tilde_escape_def
          bytearray_append_def spec_passes_through_iff)
  next
    case False
    then show ?thesis
      using hb lb hex_digit_code [OF h] hex_digit_code [OF l]
      by (simp add: encode_uri_part_step_def spec_tilde_escape_def
          bytearray_append_def spec_passes_through_iff Let_def)
  qed
qed

lemma encode_uri_part_loop_spec:
  "list_all (\<lambda>b. b < 256) bs \<Longrightarrow>
   encode_uri_part_loop acc bs = Inr (acc @ concat (map spec_tilde_escape bs))"
  by (induction bs arbitrary: acc) (simp_all add: encode_uri_part_step_spec)

lemma spec_hex_digit_ascii: "n < 16 \<Longrightarrow> spec_hex_digit n < 128"
  using hex_digit_code [of n] by (simp split: if_splits)

lemma spec_tilde_escape_ascii:
  "b < 256 \<Longrightarrow> list_all (\<lambda>c. c < 128) (spec_tilde_escape b)"
proof -
  assume "b < 256"
  then have "b div 16 < 16" "b mod 16 < 16" by simp_all
  then show ?thesis
    by (auto simp: spec_tilde_escape_def spec_passes_through_iff spec_hex_digit_ascii)
qed

lemma concat_tilde_escape_ascii:
  "list_all (\<lambda>b. b < 256) bs \<Longrightarrow>
   list_all (\<lambda>c. c < 128) (concat (map spec_tilde_escape bs))"
  by (induction bs) (simp_all add: spec_tilde_escape_ascii)

lemma encode_uri_part_custom_refines:
  "encode_uri_part_custom s =
     (case str_encode_utf8 s of Inl e \<Rightarrow> Inl e
      | Inr bs \<Rightarrow> Inr (concat (map spec_tilde_escape bs)))"
proof (cases "str_encode_utf8 s")
  case (Inl e)
  then show ?thesis by (simp add: encode_uri_part_custom_def)
next
  case (Inr bs)
  then have "list_all (\<lambda>b. b < 256) bs" by (rule str_encode_utf8_bytes)
  then show ?thesis
    using Inr
    by (simp add: encode_uri_part_custom_def encode_uri_part_loop_spec
        bytes_decode_ascii_def concat_tilde_escape_ascii)
qed

lemma spec_passes_through_ascii: "spec_passes_through b \<Longrightarrow> b < 128"
  by (auto simp: spec_passes_through_iff)

lemma str_encode_utf8_ascii:
  "list_all (\<lambda>c. c < 128) s \<Longrightarrow> str_encode_utf8 s = Inr s"
  by (induction s) (simp_all add: utf8_encode_char_def)

lemma concat_tilde_escape_id:
  "list_all spec_passes_through s \<Longrightarrow> concat (map spec_tilde_escape s) = s"
  by (induction s) (simp_all add: spec_tilde_escape_def)

lemma encode_uri_part_custom_id:
  "list_all spec_passes_through s \<Longrightarrow> encode_uri_part_custom s = Inr s"
proof -
  assume a: "list_all spec_passes_through s"
  then have "list_all (\<lambda>c. c < 128) s"
    by (induction s) (simp_all add: spec_passes_through_ascii)
  then have "str_encode_utf8 s = Inr s" by (rule str_encode_utf8_ascii)
  then show ?thesis
    using a by (simp add: encode_uri_part_custom_refines concat_tilde_escape_id)
qed

lemma encode_uri_part_custom_space: "encode_uri_part_custom (lit '' '') = Inr (lit ''~20'')"
  by (simp add: encode_uri_part_custom_def lit_def utf8_encode_char_def
      encode_uri_part_step_def bytearray_append_def bytes_decode_ascii_def)

lemma encode_uri_part_custom_e_acute: "encode_uri_part_custom [0xE9] = Inr (lit ''~C3~A9'')"
  by (simp add: encode_uri_part_custom_def lit_def utf8_encode_char_def
      encode_uri_part_step_def bytearray_append_def bytes_decode_ascii_def)

text \<open>
  Claim C1. The encoder first encodes its argument as UTF-8 (and fails where that fails);
  on the bytes it is the tilde-escape of the specification, byte by byte: a hyphen, an
  underscore, a digit or an ASCII letter stays, and any other byte \<open>b\<close> becomes a
  tilde and the two hexadecimal digits of \<open>b div 16\<close> and \<open>b mod 16\<close>. A space becomes
  \<open>~20\<close>, the letter e with acute accent \<open>~C3~A9\<close>, and a string over the
  alphabet of letters, digits, underscore and hyphen is returned as it is.
\<close>

theorem encode_uri_part_custom_tilde_escape:
  "encode_uri_part_custom s =
     (case str_encode_utf8 s of Inl e \<Rightarrow> Inl e
      | Inr bs \<Rightarrow> Inr (concat (map spec_tilde_escape bs)))
   \<and> encode_uri_part_custom (lit '' '') = Inr (lit ''~20'')
   \<and> encode_uri_part_custom [0xE9] = Inr (lit ''~C3~A9'')
   \<and> (list_all spec_passes_through t \<longrightarrow> encode_uri_part_custom t = Inr t)"
  using encode_uri_part_custom_refines [of s] encode_uri_part_custom_space encode_uri_part_custom_e_acute
    encode_uri_part_custom_id [of t] by blast

theorem encode_uri_part_custom_tilde_escape_witness:
  "list_all spec_passes_through (lit ''aZ0_-'')
   \<and> encode_uri_part_custom (lit ''aZ0_-'') = Inr (lit ''aZ0_-'')
   \<and> encode_uri_part_custom (lit ''a b/~'') = Inr (lit ''a~20b~2F~7E'')"
proof -
  have h: "list_all spec_passes_through (lit ''aZ0_-'')"
    by (simp add: lit_def spec_passes_through_def)
  have e: "str_encode_utf8 (lit ''a b/~'') = Inr (lit ''a b/~'')"
    by (simp add: lit_def utf8_encode_char_def)
  have c: "concat (map spec_tilde_escape (lit ''a b/~'')) = lit ''a~20b~2F~7E''"
    by (simp add: lit_def spec_tilde_escape_def spec_passes_through_def spec_hex_digit_def)
  show ?thesis
    using h encode_uri_part_custom_tilde_escape [of "lit ''a b/~''" "lit ''aZ0_-''"] e c by simp
qed

section \<open>Facts about the library functions\<close>

lemma lit_eq_iff [simp]: "lit a = lit b \<longleftrightarrow> a = b"
proof -
  have "inj (of_char :: char \<Rightarrow> nat)" by (rule injI) simp
  then show ?thesis by (simp add: lit_def inj_map_eq_map)
qed

lemma str_format_request_failed:
  "str_format (lit ''Request failed with status code {0}'') [a]
   = Inr (lit ''Request failed with status code '' @ a)"
  by (simp add: lit_def)

lemma raise_request_failed_eq:
  "raise_request_failed n
   = Inl (Exception (JStr (lit ''Request failed with status code '' @ str_int n)))"
  by (simp add: raise_request_failed_def str_format_request_failed)

lemma str_format_samples:
  "str_format (lit ''/archive/1/samples/{0}?start={1}&end={2}'') [q, s, e]
   = Inr (lit ''/archive/1/samples/'' @ q @ lit ''?start='' @ s @ lit ''&end='' @ e)"
  by (simp add: lit_def)

lemma str_format_count:
  "str_format (lit ''&count={0}'') [c] = Inr (lit ''&count='' @ c)"
  by (simp add: lit_def)

lemma str_format_by_pattern:
  "str_format (lit ''/archive/1/channels-by-pattern/{0}'') [q]
   = Inr (lit ''/archive/1/channels-by-pattern/'' @ q)"
  by (simp add: lit_def)

lemma str_format_import:
  "str_format (lit ''/channels/by-server/{0}/import'') [a]
   = Inr (lit ''/channels/by-server/'' @ a @ lit ''/import'')"
  by (simp add: lit_def)

lemma str_int_examples:
  "str_int 1000 = lit ''1000''" "str_int 2000 = lit ''2000''" "str_int 50 = lit ''50''"
  "str_int 503 = lit ''503''" "str_int 404 = lit ''404''" "str_int (- 7) = lit ''-7''"
  "str_int 0 = lit ''0''"
  by (simp_all add: str_int_def str_nat.simps lit_def)

lemma quote_ch1: "quote (lit ''ch1'') = Inr (lit ''ch1'')"
  by (simp add: quote_def lit_def utf8_encode_char_def quote_byte_def quote_always_safe_def)

lemma quote_example: "quote (lit ''a b/c'') = Inr (lit ''a%20b%2Fc'')"
  by (simp add: quote_def lit_def utf8_encode_char_def quote_byte_def quote_always_safe_def
      quote_hex_def)

lemma b64_char_ascii: "n < 64 \<Longrightarrow> b64_char n < 128"
proof -
  have "list_all (\<lambda>c. (of_char c :: nat) < 128) b64_alphabet"
    by (simp add: b64_alphabet_def)
  moreover assume "n < 64"
  moreover have "length b64_alphabet = 64" by (simp add: b64_alphabet_def)
  ultimately show ?thesis
    by (simp add: b64_char_def list_all_length)
qed

lemma b64encode_ascii:
  "list_all (\<lambda>b. b < 256) bs \<Longrightarrow> list_all (\<lambda>c. c < 128) (b64encode bs)"
proof (induction bs rule: b64encode.induct)
  case 1
  then show ?case by simp
next
  case (2 a)
  then have "a div 4 < 64" "a mod 4 * 16 < 64" by auto
  then show ?case by (simp add: b64_char_ascii)
next
  case (3 a b)
  then have "a div 4 < 64" "a mod 4 * 16 + b div 16 < 64" "b mod 16 * 4 < 64" by auto
  then show ?case by (simp add: b64_char_ascii)
next
  case (4 a b c rest)
  then have "a div 4 < 64" "a mod 4 * 16 + b div 16 < 64" "b mod 16 * 4 + c div 64 < 64"
    "c mod 64 < 64" by auto
  with 4 show ?case by (simp add: b64_char_ascii)
qed

lemma b64encode_hi: "b64encode (lit ''hi'') = lit ''aGk=''"
  by (simp add: lit_def b64_char_def b64_alphabet_def)

section \<open>Properties of ArchiveClient\<close>

lemma get_samples_req_url_eq:
  "get_samples_req_url channel_name start_time end_time count =
     bind_res (quote channel_name) (\<lambda>quoted.
       Inr (lit ''/archive/1/samples/'' @ quoted @ lit ''?start='' @ str_int start_time
            @ lit ''&end='' @ str_int end_time
            @ (if arg_default 0 count > 0
               then lit ''&count='' @ str_int (arg_default 0 count) else [])))"
  by (cases "quote channel_name")
     (simp_all add: get_samples_req_url_def str_format_samples str_format_count)

lemma get_samples_req_url_ch1:
  "get_samples_req_url (lit ''ch1'') 1000 2000 None
   = Inr (lit ''/archive/1/samples/ch1?start=1000&end=2000'')"
  by (simp add: get_samples_req_url_eq quote_ch1 str_int_examples arg_default_def)
     (simp add: lit_def)

lemma get_samples_req_url_ch1_count:
  "get_samples_req_url (lit ''ch1'') 1000 2000 (Some 50)
   = Inr (lit ''/archive/1/samples/ch1?start=1000&end=2000&count=50'')"
  by (simp add: get_samples_req_url_eq quote_ch1 str_int_examples arg_default_def)
     (simp add: lit_def)

text \<open>
  Claim C8. \<open>get_samples\<close> builds the path \<open>/archive/1/samples/\<close>, the
  percent-encoded channel name, \<open>?start=\<close>, the start time, \<open>&end=\<close> and the end
  time, followed by \<open>&count=\<close> and the count exactly when the count is positive (a
  count left out is zero), and sends its request to the base URL followed by that
  path. For channel \<open>ch1\<close> from 1000 to 2000 the path is
  \<open>/archive/1/samples/ch1?start=1000&end=2000\<close>, and with the count 50 it ends in
  \<open>&count=50\<close>.
\<close>

theorem get_samples_request_path:
  "get_samples_req_url channel_name start_time end_time count =
     bind_res (quote channel_name) (\<lambda>quoted.
       Inr (lit ''/archive/1/samples/'' @ quoted @ lit ''?start='' @ str_int start_time
            @ lit ''&end='' @ str_int end_time
            @ (if arg_default 0 count > 0
               then lit ''&count='' @ str_int (arg_default 0 count) else [])))
   \<and> get_samples self urlopen channel_name start_time end_time count =
     bind_res (get_samples_req_url channel_name start_time end_time count) (\<lambda>req_url.
     bind_res
       (do_req urlopen
          \<lparr> full_url = archive_base_url self @ req_url, data = None,
            headers = [(lit ''Accept'', lit ''application/json''),
                       (lit ''Accept-Encoding'', lit ''gzip'')],
            http_method = lit ''GET'' \<rparr>)
       archive_handle_resp)
   \<and> get_samples_req_url (lit ''ch1'') 1000 2000 None
       = Inr (lit ''/archive/1/samples/ch1?start=1000&end=2000'')
   \<and> get_samples_req_url (lit ''ch1'') 1000 2000 (Some 50)
       = Inr (lit ''/archive/1/samples/ch1?start=1000&end=2000&count=50'')"
  using get_samples_req_url_eq [of channel_name start_time end_time count]
    get_samples_req_url_ch1 get_samples_req_url_ch1_count
  by (simp add: get_samples_def archive_req_def)

theorem get_samples_request_path_witness:
  "get_samples_req_url (lit ''a b/c'') (- 7) 2000 (Some 0)
     = Inr (lit ''/archive/1/samples/a%20b%2Fc?start=-7&end=2000'')
   \<and> get_samples_req_url (lit ''a b/c'') (- 7) 2000 (Some 50)
     = Inr (lit ''/archive/1/samples/a%20b%2Fc?start=-7&end=2000&count=50'')"
proof -
  have "get_samples_req_url (lit ''a b/c'') (- 7) 2000 (Some 0)
     = Inr (lit ''/archive/1/samples/a%20b%2Fc?start=-7&end=2000'')"
    using get_samples_request_path [of "lit ''a b/c''" "- 7" 2000 "Some 0"]
    by (simp add: quote_example str_int_examples arg_default_def) (simp add: lit_def)
  moreover have "get_samples_req_url (lit ''a b/c'') (- 7) 2000 (Some 50)
     = Inr (lit ''/archive/1/samples/a%20b%2Fc?start=-7&end=2000&count=50'')"
    using get_samples_request_path [of "lit ''a b/c''" "- 7" 2000 "Some 50"]
    by (simp add: quote_example str_int_examples arg_default_def) (simp add: lit_def)
  ultimately show ?thesis by simp
qed

text \<open>
  The sibling operation encodes its own parameter and sends the request.
\<close>

lemma find_channels_by_pattern_request:
  "quote pattern = Inr quoted \<Longrightarrow>
   find_channels_by_pattern self urlopen pattern =
     bind_res
       (do_req urlopen (archive_req self (lit ''/archive/1/channels-by-pattern/'' @ quoted)))
       archive_handle_resp"
  by (simp add: find_channels_by_pattern_def str_format_by_pattern)

text \<open>
  Claim C3. \<open>find_channels_by_regexp\<close> should send a \<open>GET\<close> for
  \<open>/archive/1/channels-by-regexp/\<close> followed by its percent-encoded argument and
  return the parsed body. The function reads the name \<open>pattern\<close>, which is neither
  one of its variables nor a name of the module: every call raises \<open>NameError\<close>
  before any request is built, whatever the argument and the server.
\<close>

theorem find_channels_by_regexp_raises_NameError:
  "find_channels_by_regexp self urlopen regular_expression = Inl (NameError ''pattern'')"
  by (simp add: find_channels_by_regexp_def load_name_def archive_client_globals_def)

section \<open>Properties of AdminClient\<close>

lemma get_resp_data_json_response [simp]: "get_resp_data (json_response c body) = Inr body"
  by (simp add: get_resp_data_def get_content_type_def json_response_def lit_def)

lemma code_json_response [simp]: "code (json_response c body) = c"
  by (simp add: json_response_def)

lemma do_req_const [simp]:
  "do_req (\<lambda>rq. Returns resp) rq = Inr resp"
  "do_req (\<lambda>rq. RaisesHTTPError resp) rq = Inr resp"
  by (simp_all add: do_req_def)

lemma post_status_check_pass:
  "is_success_code (code resp) \<or> code resp = INTERNAL_SERVER_ERROR \<Longrightarrow>
   post_status_check resp = Inr ()"
  by (auto simp: post_status_check_def is_success_code_def Let_def)

lemma post_status_check_forbidden:
  "code resp = FORBIDDEN \<Longrightarrow>
   post_status_check resp = Inl (Exception (JStr (lit ''Authentication error'')))"
  by (simp add: post_status_check_def Let_def)

lemma post_status_check_bad_request:
  "code resp = BAD_REQUEST \<Longrightarrow>
   post_status_check resp =
     Inl (Exception
       (if py_truth (bad_request_error_message resp) then bad_request_error_message resp
        else JStr (lit ''Malformed request. Check the input parameters'')))"
  by (simp add: post_status_check_def Let_def)

lemma post_status_check_other:
  "\<not> is_success_code (code resp) \<Longrightarrow> code resp \<noteq> FORBIDDEN \<Longrightarrow>
   code resp \<noteq> BAD_REQUEST \<Longrightarrow> code resp \<noteq> INTERNAL_SERVER_ERROR \<Longrightarrow>
   code resp \<noteq> SERVICE_UNAVAILABLE \<Longrightarrow>
   post_status_check resp =
     Inl (Exception (JStr (lit ''Request failed with status code '' @ str_int (code resp))))"
  by (simp add: post_status_check_def Let_def raise_request_failed_eq)

lemma post_status_check_unavailable:
  "code resp = SERVICE_UNAVAILABLE \<Longrightarrow>
   post_status_check resp = Inl (Exception (JStr (lit ''Service currently not available'')))"
  by (simp add: post_status_check_def Let_def raise_not_available_def)

lemma import_post_failure:
  assumes "\<forall>rq. do_req urlopen rq = Inr resp"
    and "import_server_configuration_req self fs server_id cf a r u s = Inr rq"
    and "post_status_check resp = Inl e"
  shows "import_server_configuration self fs urlopen server_id cf a r u s = Inl e"
  using assms by (simp add: import_server_configuration_def)

lemma run_post_failure:
  assumes "\<forall>rq. do_req urlopen rq = Inr resp"
    and "post_status_check resp = Inl e"
  shows "run_archive_configuration_commands self urlopen commands = Inl e"
  using assms by (simp add: run_archive_configuration_commands_def Let_def)

lemma import_req_eq:
  assumes "spec_configuration_payload fs cf = Some payload"
    and "list_all (\<lambda>b. b < 256) payload"
  shows "import_server_configuration_req self fs server_id cf a r u s =
     Inr (req self (lit ''/channels/by-server/'' @ server_id @ lit ''/import'')
        (Some (JObj
             [(lit ''addChannels'', JBool (arg_default True a)),
              (lit ''configurationFile'', JStr (b64encode payload)),
              (lit ''removeChannels'', JBool (arg_default False r)),
              (lit ''simulate'', JBool (arg_default False s)),
              (lit ''updateChannels'', JBool (arg_default True u))]))
        (lit ''POST'') True)"
  using assms b64encode_ascii [OF assms(2)]
  by (cases cf)
     (simp_all add: import_server_configuration_req_def str_format_import
        spec_configuration_payload_def bytes_decode_ascii_def)

lemma import_req_example:
  "\<exists>rq. import_server_configuration_req example_admin (\<lambda>p. None) (lit ''srv'')
      (FileContents (lit ''hi'')) None None None None = Inr rq"
proof -
  have "list_all (\<lambda>b. b < 256) (lit ''hi'')" by (simp add: lit_def)
  then show ?thesis
    using import_req_eq [of "\<lambda>p. None" "FileContents (lit ''hi'')" "lit ''hi''"]
    by (simp add: spec_configuration_payload_def)
qed

subsection \<open>Status 503\<close>

lemma service_unavailable_siblings:
  assumes "\<forall>rq. do_req urlopen rq = Inr resp" and "code resp = SERVICE_UNAVAILABLE"
  shows "get_cluster_status self urlopen
           = Inl (Exception (JStr (lit ''Service currently not available'')))"
    and "list_all_channels self urlopen
           = Inl (Exception (JStr (lit ''Service currently not available'')))"
    and "list_channels_for_server self urlopen server_id
           = Inl (Exception (JStr (lit ''Service currently not available'')))"
    and "run_archive_configuration_commands self urlopen commands
           = Inl (Exception (JStr (lit ''Service currently not available'')))"
proof -
  show "get_cluster_status self urlopen
           = Inl (Exception (JStr (lit ''Service currently not available'')))"
    using assms by (simp add: get_cluster_status_def raise_not_available_def)
  show "list_all_channels self urlopen
           = Inl (Exception (JStr (lit ''Service currently not available'')))"
    using assms by (simp add: list_all_channels_def raise_not_available_def)
  have "\<exists>url. str_format (lit ''/channels/by-server/{0}/'') [server_id] = Inr url"
    by (simp add: lit_def)
  then show "list_channels_for_server self urlopen server_id
           = Inl (Exception (JStr (lit ''Service currently not available'')))"
    using assms by (auto simp: list_channels_for_server_def raise_not_available_def)
  show "run_archive_configuration_commands self urlopen commands
           = Inl (Exception (JStr (lit ''Service currently not available'')))"
    using assms(1) post_status_check_unavailable [OF assms(2)] by (rule run_post_failure)
qed

lemma service_unavailable_siblings_with_arguments:
  assumes "\<forall>rq. do_req urlopen rq = Inr resp" and "code resp = SERVICE_UNAVAILABLE"
  shows "encode_uri_part_custom channel_name = Inr encoded \<Longrightarrow>
         get_channel self urlopen channel_name None
           = Inl (Exception (JStr (lit ''Service currently not available'')))"
    and "import_server_configuration_req self fs server_id cf a r u s = Inr rq \<Longrightarrow>
         import_server_configuration self fs urlopen server_id cf a r u s
           = Inl (Exception (JStr (lit ''Service currently not available'')))"
    and "quote pattern = Inr quoted \<Longrightarrow>
         find_channels_by_pattern archive urlopen pattern
           = Inl (Exception (JStr (lit ''Service currently not available'')))"
    and "get_samples_req_url channel_name start_time end_time count = Inr req_url \<Longrightarrow>
         get_samples archive urlopen channel_name start_time end_time count
           = Inl (Exception (JStr (lit ''Service currently not available'')))"
proof -
  have f: "str_format (lit ''/channels/all/by-name/{0}/'') [encoded]
      = Inr (lit ''/channels/all/by-name/'' @ encoded @ lit ''/'')"
    by (simp add: lit_def)
  show "get_channel self urlopen channel_name None
           = Inl (Exception (JStr (lit ''Service currently not available'')))"
    if "encode_uri_part_custom channel_name = Inr encoded"
    using that assms f by (simp add: get_channel_def raise_not_available_def)
  show "import_server_configuration self fs urlopen server_id cf a r u s
           = Inl (Exception (JStr (lit ''Service currently not available'')))"
    if "import_server_configuration_req self fs server_id cf a r u s = Inr rq"
    using assms(1) that post_status_check_unavailable [OF assms(2)]
    by (rule import_post_failure)
  show "find_channels_by_pattern archive urlopen pattern
           = Inl (Exception (JStr (lit ''Service currently not available'')))"
    if "quote pattern = Inr quoted"
    using that assms
    by (simp add: find_channels_by_pattern_def str_format_by_pattern archive_handle_resp_def
        raise_not_available_def)
  show "get_samples archive urlopen channel_name start_time end_time count
           = Inl (Exception (JStr (lit ''Service currently not available'')))"
    if "get_samples_req_url channel_name start_time end_time count = Inr req_url"
    using that assms
    by (simp add: get_samples_def archive_handle_resp_def raise_not_available_def)
qed

text \<open>
  Claim C4. Every public operation should answer status 503 with the failure
  \<open>Service currently not available\<close> and never with the generic one.
  \<open>get_server_status\<close> has no test for 503: on such a response, which
  \<open>urlopen\<close> raises as an \<open>HTTPError\<close> and \<open>_do_req\<close> hands back, it raises
  \<open>Request failed with status code 503\<close>, whatever the body.
\<close>

theorem get_server_status_503_generic_failure:
  "get_server_status self (\<lambda>rq. RaisesHTTPError (resp\<lparr>code := SERVICE_UNAVAILABLE\<rparr>))
   = Inl (Exception (JStr (lit ''Request failed with status code 503'')))"
  by (simp add: get_server_status_def is_success_code_def raise_request_failed_eq
      str_int_examples) (simp add: lit_def)

subsection \<open>An error message in the body\<close>

lemma checked_resp_data_error:
  assumes "get_resp_data resp = Inr (JObj kvs)"
    and "map_of kvs (lit ''errorMessage'') = Some x" and "x \<noteq> JNull"
  shows "checked_resp_data resp = Inl (Exception x)"
  using assms by (simp add: checked_resp_data_def)

text \<open>
  Claim C5. In \<open>import_server_configuration\<close> and
  \<open>run_archive_configuration_commands\<close>, when the status is between 200 and 299
  or is 500, and the body parses to an object whose field \<open>errorMessage\<close> has a
  value \<open>x\<close> other than null, the call raises an exception carrying \<open>x\<close> and
  returns nothing.
\<close>

theorem error_message_in_body_is_raised:
  assumes "is_success_code (code resp) \<or> code resp = INTERNAL_SERVER_ERROR"
    and "get_resp_data resp = Inr (JObj kvs)"
    and "map_of kvs (lit ''errorMessage'') = Some x"
    and "x \<noteq> JNull"
    and "\<forall>rq. do_req urlopen rq = Inr resp"
    and "import_server_configuration_req self fs server_id cf a r u s = Inr rq"
  shows "import_server_configuration self fs urlopen server_id cf a r u s = Inl (Exception x)
    \<and> run_archive_configuration_commands self urlopen commands = Inl (Exception x)"
proof
  note pass = post_status_check_pass [OF assms(1)]
  note err = checked_resp_data_error [OF assms(2,3,4)]
  show "import_server_configuration self fs urlopen server_id cf a r u s = Inl (Exception x)"
    using assms(5,6) pass err by (simp add: import_server_configuration_def)
  show "run_archive_configuration_commands self urlopen commands = Inl (Exception x)"
    using assms(5) pass err by (simp add: run_archive_configuration_commands_def Let_def)
qed

theorem error_message_in_body_is_raised_witness:
  "import_server_configuration example_admin (\<lambda>p. None)
     (\<lambda>rq. Returns (json_response 200 (JObj [(lit ''errorMessage'', JStr (lit ''X''))])))
     (lit ''srv'') (FileContents (lit ''hi'')) None None None None
     = Inl (Exception (JStr (lit ''X'')))
   \<and> run_archive_configuration_commands example_admin
     (\<lambda>rq. Returns (json_response 200 (JObj [(lit ''errorMessage'', JStr (lit ''X''))]))) []
     = Inl (Exception (JStr (lit ''X'')))
   \<and> run_archive_configuration_commands example_admin
     (\<lambda>rq. RaisesHTTPError
        (json_response 500 (JObj [(lit ''errorMessage'', JStr (lit ''X''))]))) []
     = Inl (Exception (JStr (lit ''X'')))"
proof -
  obtain rq where rq: "import_server_configuration_req example_admin (\<lambda>p. None) (lit ''srv'')
      (FileContents (lit ''hi'')) None None None None = Inr rq"
    using import_req_example by blast
  have ok: "is_success_code (code (json_response 200 b)) \<or> code (json_response 200 b) = 500"
    for b by (simp add: is_success_code_def)
  have ise: "is_success_code (code (json_response 500 b)) \<or> code (json_response 500 b) = 500"
    for b by simp
  have m: "map_of [(lit ''errorMessage'', JStr (lit ''X''))] (lit ''errorMessage'')
             = Some (JStr (lit ''X''))" by simp
  have n: "JStr (lit ''X'') \<noteq> JNull" by simp
  show ?thesis
    using error_message_in_body_is_raised [OF ok get_resp_data_json_response m n _ rq,
        of "\<lambda>rq. Returns (json_response 200 (JObj [(lit ''errorMessage'', JStr (lit ''X''))]))"
           "[]"]
      error_message_in_body_is_raised [OF ise get_resp_data_json_response m n _ rq,
        of "\<lambda>rq. RaisesHTTPError
              (json_response 500 (JObj [(lit ''errorMessage'', JStr (lit ''X''))]))" "[]"]
    by simp
qed

subsection \<open>The failures of the two POST operations\<close>

lemma bad_request_error_message_parsed:
  "get_resp_data resp = Inr (JObj kvs) \<Longrightarrow> map_of kvs (lit ''errorMessage'') = Some m \<Longrightarrow>
   bad_request_error_message resp = m"
  by (simp add: bad_request_error_message_def)

lemma bad_request_error_message_cases:
  "(\<exists>kvs m. get_resp_data resp = Inr (JObj kvs) \<and> map_of kvs (lit ''errorMessage'') = Some m
        \<and> bad_request_error_message resp = m)
   \<or> bad_request_error_message resp = JNull"
proof (cases "get_resp_data resp")
  case (Inl e)
  then show ?thesis by (simp add: bad_request_error_message_def)
next
  case (Inr d)
  show ?thesis
  proof (cases d)
    case (JObj kvs)
    with Inr show ?thesis
      by (cases "map_of kvs (lit ''errorMessage'')") (simp_all add: bad_request_error_message_def)
  qed (use Inr in \<open>simp_all add: bad_request_error_message_def\<close>)
qed

lemma bad_request_fallback:
  assumes "\<not> (\<exists>kvs m. get_resp_data resp = Inr (JObj kvs)
              \<and> map_of kvs (lit ''errorMessage'') = Some m \<and> py_truth m)"
  shows "\<not> py_truth (bad_request_error_message resp)"
  using assms bad_request_error_message_cases [of resp] by auto

lemma messages_distinct:
  "lit ''Authentication error'' \<noteq> lit ''Malformed request. Check the input parameters''"
  "lit ''Authentication error'' \<noteq> lit ''Request failed with status code '' @ n"
  "lit ''Malformed request. Check the input parameters''
     \<noteq> lit ''Request failed with status code '' @ n"
  by (simp_all add: lit_def)

text \<open>
  Claim C6, as stated, at two responses with status 400. A body whose
  \<open>errorMessage\<close> is the empty string parses, and the exception carries the
  fixed text, not the message of the body. A body whose \<open>errorMessage\<close> is
  \<open>Authentication error\<close> gives the very exception that status 403 gives, so the
  outcomes of 400 and 403 are not distinct there.
\<close>

theorem bad_request_outcomes_counterexample:
  "import_server_configuration example_admin (\<lambda>p. None)
     (\<lambda>rq. RaisesHTTPError (json_response 400 (JObj [(lit ''errorMessage'', JStr [])])))
     (lit ''srv'') (FileContents (lit ''hi'')) None None None None
     = Inl (Exception (JStr (lit ''Malformed request. Check the input parameters'')))
   \<and> import_server_configuration example_admin (\<lambda>p. None)
     (\<lambda>rq. RaisesHTTPError
        (json_response 400 (JObj [(lit ''errorMessage'', JStr (lit ''Authentication error''))])))
     (lit ''srv'') (FileContents (lit ''hi'')) None None None None
     = Inl (Exception (JStr (lit ''Authentication error'')))
   \<and> import_server_configuration example_admin (\<lambda>p. None)
     (\<lambda>rq. RaisesHTTPError (json_response 403 JNull))
     (lit ''srv'') (FileContents (lit ''hi'')) None None None None
     = Inl (Exception (JStr (lit ''Authentication error'')))"
proof -
  obtain rq where rq: "import_server_configuration_req example_admin (\<lambda>p. None) (lit ''srv'')
      (FileContents (lit ''hi'')) None None None None = Inr rq"
    using import_req_example by blast
  have 1: "post_status_check (json_response 400 (JObj [(lit ''errorMessage'', JStr [])]))
     = Inl (Exception (JStr (lit ''Malformed request. Check the input parameters'')))"
    by (simp add: post_status_check_bad_request bad_request_error_message_def)
  have 2: "post_status_check
       (json_response 400 (JObj [(lit ''errorMessage'', JStr (lit ''Authentication error''))]))
     = Inl (Exception (JStr (lit ''Authentication error'')))"
    by (simp add: post_status_check_bad_request bad_request_error_message_def)
       (simp add: lit_def)
  have 3: "post_status_check (json_response 403 JNull)
     = Inl (Exception (JStr (lit ''Authentication error'')))"
    by (simp add: post_status_check_forbidden)
  show ?thesis
    using import_post_failure [OF _ rq 1] import_post_failure [OF _ rq 2]
      import_post_failure [OF _ rq 3]
    by simp
qed

text \<open>
  Claim C6, amended. For a response that reaches
  \<open>import_server_configuration\<close> or \<open>run_archive_configuration_commands\<close>:
  status 403 raises \<open>Authentication error\<close>; status 400 raises an exception that
  carries the \<open>errorMessage\<close> of the body when the body parses to an object and
  that message is true as a Python truth value (not null, false, zero or empty),
  and the text \<open>Malformed request. Check the input parameters\<close> in every other
  case; a status that is neither a success nor 400, 403, 500 or 503 raises
  \<open>Request failed with status code N\<close>. All three are exceptions of the one class
  \<open>Exception\<close>, and the three fixed texts are pairwise different.
\<close>

theorem post_failure_outcomes:
  assumes "\<forall>rq. do_req urlopen rq = Inr resp"
    and "import_server_configuration_req self fs server_id cf a r u s = Inr rq"
  shows
    "(code resp = FORBIDDEN \<longrightarrow>
        import_server_configuration self fs urlopen server_id cf a r u s
          = Inl (Exception (JStr (lit ''Authentication error'')))
        \<and> run_archive_configuration_commands self urlopen commands
          = Inl (Exception (JStr (lit ''Authentication error''))))
     \<and> (code resp = BAD_REQUEST \<and> get_resp_data resp = Inr (JObj kvs)
        \<and> map_of kvs (lit ''errorMessage'') = Some m \<and> py_truth m \<longrightarrow>
        import_server_configuration self fs urlopen server_id cf a r u s = Inl (Exception m)
        \<and> run_archive_configuration_commands self urlopen commands = Inl (Exception m))
     \<and> (code resp = BAD_REQUEST
        \<and> \<not> (\<exists>kvs m. get_resp_data resp = Inr (JObj kvs)
                \<and> map_of kvs (lit ''errorMessage'') = Some m \<and> py_truth m) \<longrightarrow>
        import_server_configuration self fs urlopen server_id cf a r u s
          = Inl (Exception (JStr (lit ''Malformed request. Check the input parameters'')))
        \<and> run_archive_configuration_commands self urlopen commands
          = Inl (Exception (JStr (lit ''Malformed request. Check the input parameters''))))
     \<and> (\<not> is_success_code (code resp) \<and> code resp \<noteq> FORBIDDEN \<and> code resp \<noteq> BAD_REQUEST
        \<and> code resp \<noteq> INTERNAL_SERVER_ERROR \<and> code resp \<noteq> SERVICE_UNAVAILABLE \<longrightarrow>
        import_server_configuration self fs urlopen server_id cf a r u s
          = Inl (Exception
              (JStr (lit ''Request failed with status code '' @ str_int (code resp))))
        \<and> run_archive_configuration_commands self urlopen commands
          = Inl (Exception
              (JStr (lit ''Request failed with status code '' @ str_int (code resp)))))
     \<and> lit ''Authentication error'' \<noteq> lit ''Malformed request. Check the input parameters''
     \<and> lit ''Authentication error''
          \<noteq> lit ''Request failed with status code '' @ str_int (code resp)
     \<and> lit ''Malformed request. Check the input parameters''
          \<noteq> lit ''Request failed with status code '' @ str_int (code resp)"
proof -
  note imp = import_post_failure [OF assms(1) assms(2)]
  note run = run_post_failure [OF assms(1)]
  have forbidden: "import_server_configuration self fs urlopen server_id cf a r u s
          = Inl (Exception (JStr (lit ''Authentication error'')))
        \<and> run_archive_configuration_commands self urlopen commands
          = Inl (Exception (JStr (lit ''Authentication error'')))"
    if "code resp = FORBIDDEN"
    using imp [OF post_status_check_forbidden [OF that]]
      run [OF post_status_check_forbidden [OF that]] by simp
  have parsed: "import_server_configuration self fs urlopen server_id cf a r u s
          = Inl (Exception m)
        \<and> run_archive_configuration_commands self urlopen commands = Inl (Exception m)"
    if "code resp = BAD_REQUEST" "get_resp_data resp = Inr (JObj kvs)"
      "map_of kvs (lit ''errorMessage'') = Some m" "py_truth m"
  proof -
    have "post_status_check resp = Inl (Exception m)"
      using that by (simp add: post_status_check_bad_request bad_request_error_message_parsed)
    then show ?thesis using imp run by simp
  qed
  have fallback: "import_server_configuration self fs urlopen server_id cf a r u s
          = Inl (Exception (JStr (lit ''Malformed request. Check the input parameters'')))
        \<and> run_archive_configuration_commands self urlopen commands
          = Inl (Exception (JStr (lit ''Malformed request. Check the input parameters'')))"
    if "code resp = BAD_REQUEST"
      "\<not> (\<exists>kvs m. get_resp_data resp = Inr (JObj kvs)
                \<and> map_of kvs (lit ''errorMessage'') = Some m \<and> py_truth m)"
  proof -
    have "post_status_check resp
      = Inl (Exception (JStr (lit ''Malformed request. Check the input parameters'')))"
      using that(1) bad_request_fallback [OF that(2)]
      by (simp add: post_status_check_bad_request)
    then show ?thesis using imp run by simp
  qed
  have other: "import_server_configuration self fs urlopen server_id cf a r u s
          = Inl (Exception
              (JStr (lit ''Request failed with status code '' @ str_int (code resp))))
        \<and> run_archive_configuration_commands self urlopen commands
          = Inl (Exception
              (JStr (lit ''Request failed with status code '' @ str_int (code resp))))"
    if "\<not> is_success_code (code resp)" "code resp \<noteq> FORBIDDEN" "code resp \<noteq> BAD_REQUEST"
      "code resp \<noteq> INTERNAL_SERVER_ERROR" "code resp \<noteq> SERVICE_UNAVAILABLE"
    using imp [OF post_status_check_other [OF that]] run [OF post_status_check_other [OF that]]
    by simp
  show ?thesis
    using forbidden parsed fallback other messages_distinct by blast
qed

theorem post_failure_outcomes_witness:
  "import_server_configuration example_admin (\<lambda>p. None)
     (\<lambda>rq. RaisesHTTPError (json_response 403 JNull))
     (lit ''srv'') (FileContents (lit ''hi'')) None None None None
     = Inl (Exception (JStr (lit ''Authentication error'')))
   \<and> run_archive_configuration_commands example_admin
     (\<lambda>rq. RaisesHTTPError
        (json_response 400 (JObj [(lit ''errorMessage'', JStr (lit ''bad command''))]))) []
     = Inl (Exception (JStr (lit ''bad command'')))
   \<and> run_archive_configuration_commands example_admin
     (\<lambda>rq. RaisesHTTPError (json_response 400 (JArr []))) []
     = Inl (Exception (JStr (lit ''Malformed request. Check the input parameters'')))
   \<and> import_server_configuration example_admin (\<lambda>p. None)
     (\<lambda>rq. RaisesHTTPError (json_response 404 JNull))
     (lit ''srv'') (FileContents (lit ''hi'')) None None None None
     = Inl (Exception (JStr (lit ''Request failed with status code 404'')))"
proof -
  obtain rq where rq: "import_server_configuration_req example_admin (\<lambda>p. None) (lit ''srv'')
      (FileContents (lit ''hi'')) None None None None = Inr rq"
    using import_req_example by blast
  have d: "\<forall>rq. do_req (\<lambda>rq. RaisesHTTPError resp) rq = Inr resp" for resp
    by simp
  have t: "py_truth (JStr (lit ''bad command''))" by (simp add: lit_def)
  have "import_server_configuration example_admin (\<lambda>p. None)
     (\<lambda>rq. RaisesHTTPError (json_response 403 JNull))
     (lit ''srv'') (FileContents (lit ''hi'')) None None None None
     = Inl (Exception (JStr (lit ''Authentication error'')))"
    using post_failure_outcomes [OF d [of "json_response 403 JNull"] rq] by simp
  moreover have "run_archive_configuration_commands example_admin
     (\<lambda>rq. RaisesHTTPError
        (json_response 400 (JObj [(lit ''errorMessage'', JStr (lit ''bad command''))]))) []
     = Inl (Exception (JStr (lit ''bad command'')))"
    using t post_failure_outcomes
        [OF d [of "json_response 400 (JObj [(lit ''errorMessage'', JStr (lit ''bad command''))])"]
            rq,
         where kvs = "[(lit ''errorMessage'', JStr (lit ''bad command''))]"
           and m = "JStr (lit ''bad command'')" and commands = "[]"]
    by simp
  moreover have "run_archive_configuration_commands example_admin
     (\<lambda>rq. RaisesHTTPError (json_response 400 (JArr []))) []
     = Inl (Exception (JStr (lit ''Malformed request. Check the input parameters'')))"
    using post_failure_outcomes
        [OF d [of "json_response 400 (JArr [])"] rq, where commands = "[]"]
    by simp
  moreover have "import_server_configuration example_admin (\<lambda>p. None)
     (\<lambda>rq. RaisesHTTPError (json_response 404 JNull))
     (lit ''srv'') (FileContents (lit ''hi'')) None None None None
     = Inl (Exception (JStr (lit ''Request failed with status code 404'')))"
    using post_failure_outcomes [OF d [of "json_response 404 JNull"] rq]
    by (simp add: is_success_code_def str_int_examples) (simp add: lit_def)
  ultimately show ?thesis by simp
qed

subsection \<open>The request of import_server_configuration\<close>

text \<open>
  Claim C7. When the configuration is a bytes object, or the path of a file that
  can be read, \<open>import_server_configuration\<close> sends one request whose body is
  the object with exactly the five fields \<open>addChannels\<close>, \<open>configurationFile\<close>,
  \<open>removeChannels\<close>, \<open>simulate\<close> and \<open>updateChannels\<close>: the configuration
  field is the base64 text of the payload (the argument itself, or the contents of
  the file), and the four flags are the arguments, which are true, false, true and
  false for \<open>addChannels\<close>, \<open>removeChannels\<close>, \<open>updateChannels\<close> and
  \<open>simulate\<close> when the caller leaves them out.
\<close>

theorem import_request_body:
  assumes "spec_configuration_payload fs cf = Some payload"
    and "list_all (\<lambda>b. b < 256) payload"
  shows
    "import_server_configuration_req self fs server_id cf
       (Some add_channels) (Some remove_channels) (Some update_channels) (Some simulate) =
       Inr (req self (lit ''/channels/by-server/'' @ server_id @ lit ''/import'')
          (Some (JObj
             [(lit ''addChannels'', JBool add_channels),
              (lit ''configurationFile'', JStr (b64encode payload)),
              (lit ''removeChannels'', JBool remove_channels),
              (lit ''simulate'', JBool simulate),
              (lit ''updateChannels'', JBool update_channels)]))
          (lit ''POST'') True)
     \<and> import_server_configuration_req self fs server_id cf None None None None =
       Inr (req self (lit ''/channels/by-server/'' @ server_id @ lit ''/import'')
          (Some (JObj
             [(lit ''addChannels'', JBool True),
              (lit ''configurationFile'', JStr (b64encode payload)),
              (lit ''removeChannels'', JBool False),
              (lit ''simulate'', JBool False),
              (lit ''updateChannels'', JBool True)]))
          (lit ''POST'') True)
     \<and> import_server_configuration self fs urlopen server_id cf None None None None =
       bind_res
         (do_req urlopen
            (req self (lit ''/channels/by-server/'' @ server_id @ lit ''/import'')
               (Some (JObj
                  [(lit ''addChannels'', JBool True),
                   (lit ''configurationFile'', JStr (b64encode payload)),
                   (lit ''removeChannels'', JBool False),
                   (lit ''simulate'', JBool False),
                   (lit ''updateChannels'', JBool True)]))
               (lit ''POST'') True))
         (\<lambda>resp. bind_res (post_status_check resp) (\<lambda>_. checked_resp_data resp))"
  using import_req_eq [OF assms, of self server_id "Some add_channels" "Some remove_channels"
      "Some update_channels" "Some simulate"]
    import_req_eq [OF assms, of self server_id None None None None]
  by (simp add: arg_default_def import_server_configuration_def)

theorem import_request_body_witness:
  "data (projr (import_server_configuration_req example_admin
       (\<lambda>p. if p = lit ''/tmp/channels.xml'' then Some (lit ''hi'') else None)
       (lit ''srv'') (FilePath (lit ''/tmp/channels.xml'')) None None None None))
   = Some (JObj
       [(lit ''addChannels'', JBool True),
        (lit ''configurationFile'', JStr (lit ''aGk='')),
        (lit ''removeChannels'', JBool False),
        (lit ''simulate'', JBool False),
        (lit ''updateChannels'', JBool True)])
   \<and> data (projr (import_server_configuration_req example_admin (\<lambda>p. None)
       (lit ''srv'') (FileContents (lit ''hi'')) (Some False) (Some True) (Some False)
       (Some True)))
   = Some (JObj
       [(lit ''addChannels'', JBool False),
        (lit ''configurationFile'', JStr (lit ''aGk='')),
        (lit ''removeChannels'', JBool True),
        (lit ''simulate'', JBool True),
        (lit ''updateChannels'', JBool False)])"
proof -
  have b: "list_all (\<lambda>b. b < 256) (lit ''hi'')" by (simp add: lit_def)
  have p1: "spec_configuration_payload
      (\<lambda>p. if p = lit ''/tmp/channels.xml'' then Some (lit ''hi'') else None)
      (FilePath (lit ''/tmp/channels.xml'')) = Some (lit ''hi'')"
    by (simp add: spec_configuration_payload_def)
  have p2: "spec_configuration_payload (\<lambda>p. None) (FileContents (lit ''hi'')) = Some (lit ''hi'')"
    by (simp add: spec_configuration_payload_def)
  show ?thesis
    using import_request_body [OF p1 b, of example_admin "lit ''srv''"]
      import_request_body [OF p2 b, of example_admin "lit ''srv''" False True False True]
    by (simp add: req_def b64encode_hi)
qed

section \<open>Properties of the command builder\<close>

lemma make_str_dict_DictOf: "make_str_dict (DictOf kvs) = Inl TypeError"
  by (simp add: make_str_dict_def)

lemma make_str_dict_None: "make_str_dict (Atom ANone) = Inr JNull"
  by (simp add: make_str_dict_def)

lemma make_str_list_None: "make_str_list (Atom ANone) = Inr JNull"
  by (simp add: make_str_list_def)

lemma make_str_dict_Inr: "make_str_dict d = Inr v \<Longrightarrow> v = JNull"
  by (cases d) (auto simp: make_str_dict_def split: if_splits)


lemma last_command_field_append:
  "last_command_field (self @ [JObj kvs]) name = map_of kvs (lit name)"
  by (simp add: last_command_field_def last_command_fields_def)

lemma add_channel_Inr:
  assumes "add_channel self cn cst sid dl rp en opts = Inr r"
  shows "\<exists>levels. make_str_list (arg_default (Atom ANone) dl) = Inr levels \<and>
     r = self @ [JObj
             [(lit ''channelName'', make_str cn),
              (lit ''commandType'', JStr (lit ''add_channel'')),
              (lit ''controlSystemType'', make_str cst),
              (lit ''decimationLevels'', levels),
              (lit ''decimationLevelToRetentionPeriod'', JNull),
              (lit ''enabled'', JBool (py_bool (arg_default (Atom (ABool True)) en))),
              (lit ''options'', JNull),
              (lit ''serverId'', make_str sid)]]"
  using assms
  by (auto simp: add_channel_def bind_res_def Let_def split: sum.splits
      dest!: make_str_dict_Inr)

lemma add_or_update_channel_Inr:
  assumes "add_or_update_channel self cn cst sid dl rp en opts = Inr r"
  shows "\<exists>levels. make_str_list (arg_default (Atom ANone) dl) = Inr levels \<and>
     r = self @ [JObj
             [(lit ''channelName'', make_str cn),
              (lit ''commandType'', JStr (lit ''add_or_update_channel'')),
              (lit ''controlSystemType'', make_str cst),
              (lit ''decimationLevels'', levels),
              (lit ''decimationLevelToRetentionPeriod'', JNull),
              (lit ''enabled'', JBool (py_bool (arg_default (Atom (ABool True)) en))),
              (lit ''options'', JNull),
              (lit ''serverId'', make_str sid)]]"
  using assms
  by (auto simp: add_or_update_channel_def bind_res_def Let_def split: sum.splits
      dest!: make_str_dict_Inr)

lemma update_channel_Inr:
  assumes "update_channel self cn adl ao dl rp en ects esid opts rdl ro = Inr r"
  shows "\<exists>add_levels levels remove_levels remove_opts.
     make_str_list (arg_default (Atom ANone) adl) = Inr add_levels \<and>
     make_str_list (arg_default (Atom ANone) dl) = Inr levels \<and>
     make_str_list (arg_default (Atom ANone) rdl) = Inr remove_levels \<and>
     make_str_list (arg_default (Atom ANone) ro) = Inr remove_opts \<and>
     r = self @ [JObj
             [(lit ''addDecimationLevels'', add_levels),
              (lit ''addOptions'', JNull),
              (lit ''channelName'', make_str cn),
              (lit ''commandType'', JStr (lit ''update_channel'')),
              (lit ''decimationLevels'', levels),
              (lit ''decimationLevelToRetentionPeriod'', JNull),
              (lit ''enabled'',
                 (if arg_default (Atom ANone) en \<noteq> Atom ANone
                  then JBool (py_bool (arg_default (Atom ANone) en)) else JNull)),
              (lit ''expectedControlSystemType'', make_str (arg_default ANone ects)),
              (lit ''expectedServerId'', make_str (arg_default ANone esid)),
              (lit ''options'', JNull),
              (lit ''removeDecimationLevels'', remove_levels),
              (lit ''removeOptions'', remove_opts)]]"
proof -
  from assms obtain add_levels add_opts levels periods opts' remove_levels remove_opts where
    1: "make_str_list (arg_default (Atom ANone) adl) = Inr add_levels" and
    2: "make_str_dict (arg_default (Atom ANone) ao) = Inr add_opts" and
    3: "make_str_list (arg_default (Atom ANone) dl) = Inr levels" and
    4: "make_str_dict (arg_default (Atom ANone) rp) = Inr periods" and
    5: "make_str_dict (arg_default (Atom ANone) opts) = Inr opts'" and
    6: "make_str_list (arg_default (Atom ANone) rdl) = Inr remove_levels" and
    7: "make_str_list (arg_default (Atom ANone) ro) = Inr remove_opts"
    unfolding update_channel_def bind_res_def by (fastforce split: sum.splits)
  note nulls = make_str_dict_Inr [OF 2] make_str_dict_Inr [OF 4] make_str_dict_Inr [OF 5]
  show ?thesis
    using assms 1 2 3 4 5 6 7 nulls by (simp add: update_channel_def Let_def)
qed


subsection \<open>Mapping arguments\<close>

text \<open>
  Claim C2. A mapping passed as \<open>options\<close> or
  \<open>decimation_level_to_retention_period\<close> should be stored as a dict of the
  strings of its keys and values. \<open>_make_str_dict\<close> iterates over
  \<open>dict_like_obj.items\<close> without calling it, which raises \<open>TypeError\<close>: for
  every dict, whatever its entries, \<open>add_channel\<close>, \<open>add_or_update_channel\<close>
  and \<open>update_channel\<close> raise and append no command.
\<close>

theorem mapping_argument_raises_TypeError:
  "make_str_dict (DictOf kvs) = Inl TypeError
   \<and> add_channel self cn cst sid None None en (Some (DictOf kvs)) = Inl TypeError
   \<and> add_channel self cn cst sid None (Some (DictOf kvs)) en opts = Inl TypeError
   \<and> add_or_update_channel self cn cst sid None None en (Some (DictOf kvs)) = Inl TypeError
   \<and> add_or_update_channel self cn cst sid None (Some (DictOf kvs)) en opts = Inl TypeError
   \<and> update_channel self cn None None None None en ects esid (Some (DictOf kvs)) rdl ro
       = Inl TypeError
   \<and> update_channel self cn None None None (Some (DictOf kvs)) en ects esid opts rdl ro
       = Inl TypeError"
  by (simp add: add_channel_def add_or_update_channel_def update_channel_def arg_default_def
      make_str_list_None make_str_dict_None make_str_dict_DictOf)

subsection \<open>One command per call\<close>





subsection \<open>The field enabled\<close>

text \<open>
  Claim C10. With \<open>enabled=None\<close>, \<open>add_channel\<close> and
  \<open>add_or_update_channel\<close> store the boolean \<open>false\<close> in the field
  \<open>enabled\<close>, and \<open>update_channel\<close> stores null. Whatever is passed as
  \<open>enabled\<close>, the field of the first two is never null.
\<close>

theorem enabled_None_is_false_except_in_update:
  "(add_channel self cn cst sid dl rp (Some (Atom ANone)) opts = Inr r1 \<longrightarrow>
      last_command_field r1 ''enabled'' = Some (JBool False))
   \<and> (add_or_update_channel self cn cst sid dl rp (Some (Atom ANone)) opts = Inr r2 \<longrightarrow>
      last_command_field r2 ''enabled'' = Some (JBool False))
   \<and> (update_channel self cn adl ao dl rp (Some (Atom ANone)) ects esid opts rdl ro = Inr r3
      \<longrightarrow> last_command_field r3 ''enabled'' = Some JNull)
   \<and> (add_channel self cn cst sid dl rp en opts = Inr r4 \<longrightarrow>
      last_command_field r4 ''enabled'' \<noteq> Some JNull)
   \<and> (add_or_update_channel self cn cst sid dl rp en opts = Inr r5 \<longrightarrow>
      last_command_field r5 ''enabled'' \<noteq> Some JNull)"
proof (intro conjI impI)
  assume "add_channel self cn cst sid dl rp (Some (Atom ANone)) opts = Inr r1"
  from add_channel_Inr [OF this] show "last_command_field r1 ''enabled'' = Some (JBool False)"
    by (auto simp: last_command_field_append arg_default_def)
next
  assume "add_or_update_channel self cn cst sid dl rp (Some (Atom ANone)) opts = Inr r2"
  from add_or_update_channel_Inr [OF this]
  show "last_command_field r2 ''enabled'' = Some (JBool False)"
    by (auto simp: last_command_field_append arg_default_def)
next
  assume "update_channel self cn adl ao dl rp (Some (Atom ANone)) ects esid opts rdl ro = Inr r3"
  from update_channel_Inr [OF this] show "last_command_field r3 ''enabled'' = Some JNull"
    by (auto simp: last_command_field_append arg_default_def)
next
  assume "add_channel self cn cst sid dl rp en opts = Inr r4"
  from add_channel_Inr [OF this] show "last_command_field r4 ''enabled'' \<noteq> Some JNull"
    by (auto simp: last_command_field_append)
next
  assume "add_or_update_channel self cn cst sid dl rp en opts = Inr r5"
  from add_or_update_channel_Inr [OF this]
  show "last_command_field r5 ''enabled'' \<noteq> Some JNull"
    by (auto simp: last_command_field_append)
qed

theorem enabled_None_is_false_except_in_update_witness:
  "last_command_field
     (projr (add_channel [] (AStr (lit ''ch'')) (AStr (lit ''cs'')) (AStr (lit ''srv''))
        None None (Some (Atom ANone)) None)) ''enabled'' = Some (JBool False)
   \<and> last_command_field
     (projr (add_or_update_channel [] (AStr (lit ''ch'')) (AStr (lit ''cs''))
        (AStr (lit ''srv'')) None None (Some (Atom ANone)) None)) ''enabled''
       = Some (JBool False)
   \<and> last_command_field
     (projr (update_channel [] (AStr (lit ''ch'')) None None None None (Some (Atom ANone))
        None None None None None)) ''enabled'' = Some JNull"
proof -
  have a: "\<exists>r. add_channel [] (AStr (lit ''ch'')) (AStr (lit ''cs'')) (AStr (lit ''srv''))
        None None (Some (Atom ANone)) None = Inr r"
    by (simp add: add_channel_def arg_default_def make_str_list_None make_str_dict_None)
  have b: "\<exists>r. add_or_update_channel [] (AStr (lit ''ch'')) (AStr (lit ''cs''))
        (AStr (lit ''srv'')) None None (Some (Atom ANone)) None = Inr r"
    by (simp add: add_or_update_channel_def arg_default_def make_str_list_None
        make_str_dict_None)
  have c: "\<exists>r. update_channel [] (AStr (lit ''ch'')) None None None None (Some (Atom ANone))
        None None None None None = Inr r"
    by (simp add: update_channel_def arg_default_def make_str_list_None make_str_dict_None)
  from a b c show ?thesis
    using enabled_None_is_false_except_in_update
    by (metis sum.sel(2))
qed

end
